theory Spec2Isabelle
  imports Main
begin

section \<open>Data model of covid19.py\<close>

text \<open>
  The module works on pandas tables. A date (a pandas Timestamp) is an integer count of
  clock ticks; its order is the chronological order.

  The metric columns are int64 columns, which is what pandas reads from a column of whole
  numbers without a blank: a cell holds an integer of the int64 range, and sums and
  differences of cells are taken in 64-bit two's complement arithmetic, silently wrapping
  around. \<open>int64\<close> is that wrap-around, \<open>in_int64\<close> the range. A metric column that had
  a blank is a float64 column; its rounding arithmetic is outside this development.
\<close>

type_synonym date = int

definition int64 :: "int \<Rightarrow> int" where
  "int64 x = (x + 2 ^ 63) mod 2 ^ 64 - 2 ^ 63"

definition in_int64 :: "int \<Rightarrow> bool" where
  "in_int64 x \<longleftrightarrow> - (2 ^ 63) \<le> x \<and> x < 2 ^ 63"

datatype error = IndexError | KeyError | ValueError | OSError

text \<open>One row of the normalized table that \<open>clean_data\<close> receives.\<close>

record row =
  Date :: date
  Country :: string
  Confirmed :: int
  Deaths :: int
  Recovered :: int

text \<open>
  The table that \<open>groupby('Date').sum()\<close> produces: the dates are its index, the numeric
  columns are stored by name, in column order.
\<close>

record frame =
  index :: "date list"
  columns :: "(string \<times> int list) list"

text \<open>A pandas Series: index labels paired with values, in positional order.\<close>

type_synonym series = "(date \<times> int) list"

text \<open>
  Tables are mutable objects reached through references; the store maps a reference to the
  object it denotes, and \<open>fresh\<close> is the next unused reference.
\<close>

datatype obj = Table "row list" | Grouped frame

record store =
  objs :: "nat \<Rightarrow> obj option"
  fresh :: nat

type_synonym 'a prog = "store \<Rightarrow> (error + 'a) \<times> store"

definition alloc :: "obj \<Rightarrow> nat prog" where
  "alloc x s = (Inr (fresh s), s\<lparr>objs := (objs s)(fresh s \<mapsto> x), fresh := Suc (fresh s)\<rparr>)"

definition bind :: "'a prog \<Rightarrow> ('a \<Rightarrow> 'b prog) \<Rightarrow> 'b prog" where
  "bind m f s = (case m s of (Inl e, s') \<Rightarrow> (Inl e, s') | (Inr x, s') \<Rightarrow> f x s')"

definition return :: "'a \<Rightarrow> 'a prog" where
  "return x s = (Inr x, s)"

definition lift :: "error + 'a \<Rightarrow> 'a prog" where
  "lift r s = (r, s)"

section \<open>The pandas and Python operations used by clean\_data\<close>

text \<open>Python truthiness of an optional string or list: \<open>None\<close> and the empty value are false.\<close>

definition truthy :: "'a list option \<Rightarrow> bool" where
  "truthy v = (case v of None \<Rightarrow> False | Some xs \<Rightarrow> xs \<noteq> [])"

text \<open>\<open>xs[i]\<close> for a non-negative literal index.\<close>

definition py_item :: "'a list \<Rightarrow> nat \<Rightarrow> error + 'a" where
  "py_item xs i = (if i < length xs then Inr (xs ! i) else Inl IndexError)"

text \<open>\<open>data[data['Country'] == country]\<close>: a new table holding the matching rows.\<close>

definition select_country :: "nat \<Rightarrow> string \<Rightarrow> nat prog" where
  "select_country data country s =
     (case objs s data of
        Some (Table rows) \<Rightarrow> alloc (Table (filter (\<lambda>r. Country r = country) rows)) s
      | _ \<Rightarrow> (Inl KeyError, s))"

text \<open>
  \<open>data.groupby('Date').sum()\<close>: a new table with one row per distinct date, the dates in
  ascending order (pandas sorts the group keys), each metric summed over the rows of that
  date. The sum of a group is accumulated cell by cell, in row order, in an int64 that starts
  at 0.
\<close>

definition group_keys :: "row list \<Rightarrow> date list" where
  "group_keys rows = sort (remdups (map Date rows))"

definition group_sum :: "(row \<Rightarrow> int) \<Rightarrow> row list \<Rightarrow> date \<Rightarrow> int" where
  "group_sum col rows d =
     foldl (\<lambda>acc x. int64 (acc + x)) 0 (map col (filter (\<lambda>r. Date r = d) rows))"

definition groupby_sum :: "row list \<Rightarrow> frame" where
  "groupby_sum rows =
     (let ks = group_keys rows in
      \<lparr>index = ks,
       columns = [(''Confirmed'', map (group_sum Confirmed rows) ks),
                  (''Deaths'', map (group_sum Deaths rows) ks),
                  (''Recovered'', map (group_sum Recovered rows) ks)]\<rparr>)"

definition groupby_Date_sum :: "nat \<Rightarrow> nat prog" where
  "groupby_Date_sum data s =
     (case objs s data of
        Some (Table rows) \<Rightarrow> alloc (Grouped (groupby_sum rows)) s
      | _ \<Rightarrow> (Inl KeyError, s))"

text \<open>\<open>data[name]\<close> reads a column; \<open>data[name] = values\<close> replaces it or adds it as the last one.\<close>

definition getitem :: "nat \<Rightarrow> string \<Rightarrow> (int list) prog" where
  "getitem data name s =
     (case objs s data of
        Some (Grouped f) \<Rightarrow>
          (case map_of (columns f) name of None \<Rightarrow> (Inl KeyError, s) | Some v \<Rightarrow> (Inr v, s))
      | _ \<Rightarrow> (Inl KeyError, s))"

fun put_column :: "string \<Rightarrow> int list \<Rightarrow> (string \<times> int list) list \<Rightarrow> (string \<times> int list) list" where
  "put_column name v [] = [(name, v)]"
| "put_column name v ((n, w) # cs) =
     (if n = name then (n, v) # cs else (n, w) # put_column name v cs)"

definition setitem :: "nat \<Rightarrow> string \<Rightarrow> int list \<Rightarrow> unit prog" where
  "setitem data name v s =
     (case objs s data of
        Some (Grouped f) \<Rightarrow>
          (Inr (), s\<lparr>objs := (objs s)(data \<mapsto> Grouped (f\<lparr>columns := put_column name v (columns f)\<rparr>))\<rparr>)
      | _ \<Rightarrow> (Inl KeyError, s))"

text \<open>Elementwise difference of two int64 columns of one table.\<close>

definition col_sub :: "int list \<Rightarrow> int list \<Rightarrow> int list" where
  "col_sub xs ys = map (\<lambda>(x, y). int64 (x - y)) (zip xs ys)"

text \<open>\<open>data.loc[mask, name]\<close> with \<open>mask = (data[name] >= t)\<close>: the entries of the column
  at or above \<open>t\<close>, each with its date. The threshold is an int64 value like the cells it
  is compared with; numpy would compare a Python integer outside that range in floating
  point, which is outside this development.\<close>

definition loc_ge :: "nat \<Rightarrow> int list \<Rightarrow> int \<Rightarrow> string \<Rightarrow> series prog" where
  "loc_ge data col t name s =
     (case objs s data of
        Some (Grouped f) \<Rightarrow>
          (case map_of (columns f) name of
             None \<Rightarrow> (Inl KeyError, s)
           | Some v \<Rightarrow> (Inr (map snd (filter (\<lambda>(c, e). t \<le> c) (zip col (zip (index f) v)))), s))
      | _ \<Rightarrow> (Inl KeyError, s))"

text \<open>\<open>Series.drop_duplicates()\<close> (keep the first): an entry is dropped when its value
  has been seen at an earlier position.\<close>

fun drop_seen :: "int list \<Rightarrow> series \<Rightarrow> series" where
  "drop_seen seen [] = []"
| "drop_seen seen ((d, v) # xs) =
     (if v \<in> set seen then drop_seen seen xs else (d, v) # drop_seen (v # seen) xs)"

definition drop_duplicates :: "series \<Rightarrow> series" where
  "drop_duplicates xs = drop_seen [] xs"

text \<open>\<open>series[label] = value\<close>: the value at an existing label is overwritten in place; a new
  label is added at the end.\<close>

definition series_set :: "series \<Rightarrow> date \<Rightarrow> int \<Rightarrow> series" where
  "series_set xs label v =
     (if label \<in> set (map fst xs)
      then map (\<lambda>(d, x). if d = label then (d, v) else (d, x)) xs
      else xs @ [(label, v)])"

section \<open>clean\_data\<close>

text \<open>
  \<open>clean_data data country threshold lastminute now\<close> follows the function line by line,
  as a program on the store. \<open>data\<close> is the reference of the caller's table. \<open>now\<close> holds
  the three readings of the clock taken by the three calls of \<open>pd.datetime.now()\<close>, in
  program order. The optional arguments are \<open>None\<close> when omitted.
\<close>

definition lastminute_append ::
  "int list option \<Rightarrow> date \<times> date \<times> date \<Rightarrow> series \<times> series \<times> series
     \<Rightarrow> error + series \<times> series \<times> series" where
  "lastminute_append lastminute now r =
     (case r of (confirmed, deaths, active) \<Rightarrow>
      case now of (now1, now2, now3) \<Rightarrow>
      if truthy lastminute then
        (let lm = the lastminute in
         case py_item lm 0 of Inl e \<Rightarrow> Inl e | Inr c0 \<Rightarrow>
         (let confirmed = series_set confirmed now1 c0 in
          case py_item lm 1 of Inl e \<Rightarrow> Inl e | Inr d0 \<Rightarrow>
          (let deaths = series_set deaths now2 d0 in
           case py_item lm 0 of Inl e \<Rightarrow> Inl e | Inr c1 \<Rightarrow>
           case py_item lm 1 of Inl e \<Rightarrow> Inl e | Inr d1 \<Rightarrow>
           case py_item lm 2 of Inl e \<Rightarrow> Inl e | Inr r1 \<Rightarrow>
           Inr (confirmed, deaths, series_set active now3 (c1 - d1 - r1)))))
      else Inr (confirmed, deaths, active))"

definition clean_data ::
  "nat \<Rightarrow> string option \<Rightarrow> int list option \<Rightarrow> int list option \<Rightarrow> date \<times> date \<times> date
     \<Rightarrow> (series \<times> series \<times> series) prog" where
  "clean_data data country threshold lastminute now =
     (let threshold = (case threshold of None \<Rightarrow> [0, 0, 0] | Some th \<Rightarrow> th) in
      bind (if truthy country then select_country data (the country) else return data) (\<lambda>data.
      bind (groupby_Date_sum data) (\<lambda>data.
      bind (getitem data ''Confirmed'') (\<lambda>c.
      bind (getitem data ''Deaths'') (\<lambda>d.
      bind (getitem data ''Recovered'') (\<lambda>r.
      bind (setitem data ''Active'' (col_sub (col_sub c d) r)) (\<lambda>_.
      bind (getitem data ''Confirmed'') (\<lambda>c.
      bind (lift (py_item threshold 0)) (\<lambda>t0.
      bind (loc_ge data c t0 ''Confirmed'') (\<lambda>confirmed.
      bind (getitem data ''Deaths'') (\<lambda>d.
      bind (lift (py_item threshold 1)) (\<lambda>t1.
      bind (loc_ge data d t1 ''Deaths'') (\<lambda>deaths.
      bind (getitem data ''Active'') (\<lambda>a.
      bind (lift (py_item threshold 2)) (\<lambda>t2.
      bind (loc_ge data a t2 ''Active'') (\<lambda>active.
      lift (lastminute_append lastminute now
              (drop_duplicates confirmed, drop_duplicates deaths, drop_duplicates active))))))))))))))))))"

section \<open>get\_data\<close>

text \<open>
  The table as it is read: named columns of cells, in file order. Reading and parsing the
  file is pandas' work and the file system's: \<open>read_csv\<close> stands for
  \<open>pd.read_csv(csv_route, skiprows=drop_first, skipfooter=drop_last, engine='python')\<close>
  and \<open>to_datetime\<close> for the conversion of one cell by \<open>pd.to_datetime\<close> (no result
  when the cell is not a date).
\<close>

datatype cell = NaN | Num int | Str string | Stamp date

type_synonym dataframe = "(string \<times> cell list) list"

definition fillna :: "cell \<Rightarrow> dataframe \<Rightarrow> dataframe" where
  "fillna v df = map (\<lambda>(name, col). (name, map (\<lambda>c. if c = NaN then v else c) col)) df"

text \<open>\<open>df.rename(mapper, axis=1)\<close>; of two entries of the dict literal with the same key
  the later one counts.\<close>

definition rename_label :: "(string \<times> string) list \<Rightarrow> string \<Rightarrow> string" where
  "rename_label mapper name = (case map_of (rev mapper) name of None \<Rightarrow> name | Some n \<Rightarrow> n)"

definition rename :: "(string \<times> string) list \<Rightarrow> dataframe \<Rightarrow> dataframe" where
  "rename mapper df = map (\<lambda>(name, col). (rename_label mapper name, col)) df"

definition convert_column :: "(cell \<Rightarrow> cell option) \<Rightarrow> cell list \<Rightarrow> error + cell list" where
  "convert_column conv col =
     (if \<forall>c \<in> set col. conv c \<noteq> None then Inr (map (\<lambda>c. the (conv c)) col) else Inl ValueError)"

text \<open>
  \<open>df['Date'] = pd.to_datetime(df['Date'], dayfirst=dayfirst)\<close>: without a column of that
  name the read raises KeyError; with several, the read yields a table, which
  \<open>to_datetime\<close> rejects.
\<close>

definition get_data ::
  "(string \<Rightarrow> nat \<Rightarrow> nat \<Rightarrow> error + dataframe) \<Rightarrow> (bool \<Rightarrow> cell \<Rightarrow> cell option)
     \<Rightarrow> string \<Rightarrow> string \<Rightarrow> string \<Rightarrow> string \<Rightarrow> string \<Rightarrow> string \<Rightarrow> nat \<Rightarrow> nat \<Rightarrow> bool
     \<Rightarrow> error + dataframe" where
  "get_data read_csv to_datetime csv_route date_label country_label confirmed_label
       deaths_label recovered_label drop_first drop_last dayfirst =
     (case read_csv csv_route drop_first drop_last of
        Inl e \<Rightarrow> Inl e
      | Inr src \<Rightarrow>
          (let df = fillna (Num 0) src;
               df = rename [(date_label, ''Date''), (country_label, ''Country''),
                            (confirmed_label, ''Confirmed''), (deaths_label, ''Deaths''),
                            (recovered_label, ''Recovered'')] df
           in case filter (\<lambda>(name, col). name = ''Date'') df of
                [] \<Rightarrow> Inl KeyError
              | [(_, col)] \<Rightarrow>
                  (case convert_column (to_datetime dayfirst) col of
                     Inl e \<Rightarrow> Inl e
                   | Inr col' \<Rightarrow>
                       Inr (map (\<lambda>(name, c). if name = ''Date'' then (name, col') else (name, c)) df))
              | _ \<Rightarrow> Inl ValueError))"

section \<open>Vocabulary of the properties\<close>

text \<open>The rows that enter the aggregation: those of the region when a label is in force,
  all rows otherwise.\<close>

definition scope :: "string option \<Rightarrow> row list \<Rightarrow> row list" where
  "scope country rows = (if truthy country then filter (\<lambda>r. Country r = the country) rows else rows)"


text \<open>The per-date totals of one metric, and the per-date active count, in ascending date
  order and before any filtering.\<close>

definition totals :: "(row \<Rightarrow> int) \<Rightarrow> row list \<Rightarrow> series" where
  "totals col rows = map (\<lambda>d. (d, group_sum col rows d)) (group_keys rows)"

definition active_totals :: "row list \<Rightarrow> series" where
  "active_totals rows =
     map (\<lambda>d. (d, int64 (int64 (group_sum Confirmed rows d - group_sum Deaths rows d)
                        - group_sum Recovered rows d)))
       (group_keys rows)"


text \<open>Thresholding followed by \<open>drop_duplicates\<close>, as lines 56 to 58 apply them.\<close>

definition threshold_dedup :: "int \<Rightarrow> series \<Rightarrow> series" where
  "threshold_dedup t full = drop_duplicates (filter (\<lambda>(d, v). t \<le> v) full)"

text \<open>The aggregated table once the Active column has been assigned.\<close>

definition grouped_frame :: "row list \<Rightarrow> frame" where
  "grouped_frame rs = (groupby_sum rs)\<lparr>columns := put_column ''Active''
      (map (\<lambda>d. int64 (int64 (group_sum Confirmed rs d - group_sum Deaths rs d)
                     - group_sum Recovered rs d)) (group_keys rs))
      (columns (groupby_sum rs))\<rparr>"

text \<open>The store after a call on a table: the new objects are the selected rows (when a label
  is in force) and the aggregated table.\<close>

definition final_store :: "store \<Rightarrow> string option \<Rightarrow> row list \<Rightarrow> store" where
  "final_store s country rows =
     (if truthy country
      then s\<lparr>objs := (objs s)(fresh s \<mapsto> Table (scope country rows),
                               Suc (fresh s) \<mapsto> Grouped (grouped_frame (scope country rows))),
             fresh := Suc (Suc (fresh s))\<rparr>
      else s\<lparr>objs := (objs s)(fresh s \<mapsto> Grouped (grouped_frame (scope country rows))),
             fresh := Suc (fresh s)\<rparr>)"


section \<open>Example tables\<close>

text \<open>A store that holds one table, at reference 0.\<close>

definition store_of :: "row list \<Rightarrow> store" where
  "store_of rows = \<lparr>objs = [0 \<mapsto> Table rows], fresh = 1\<rparr>"


definition two_regions :: "row list" where
  "two_regions =
     [\<lparr>Date = 1, Country = ''A'', Confirmed = 10, Deaths = 1, Recovered = 0\<rparr>,
      \<lparr>Date = 1, Country = ''B'', Confirmed = 5, Deaths = 0, Recovered = 0\<rparr>,
      \<lparr>Date = 2, Country = ''A'', Confirmed = 20, Deaths = 2, Recovered = 1\<rparr>,
      \<lparr>Date = 2, Country = ''B'', Confirmed = 15, Deaths = 1, Recovered = 0\<rparr>,
      \<lparr>Date = 3, Country = ''A'', Confirmed = 30, Deaths = 3, Recovered = 2\<rparr>,
      \<lparr>Date = 3, Country = ''B'', Confirmed = 25, Deaths = 2, Recovered = 1\<rparr>]"

text \<open>A table whose dates can be met by the clock.\<close>

definition dated_rows :: "row list" where
  "dated_rows =
     [\<lparr>Date = 5, Country = ''A'', Confirmed = 1, Deaths = 0, Recovered = 0\<rparr>,
      \<lparr>Date = 6, Country = ''A'', Confirmed = 2, Deaths = 1, Recovered = 0\<rparr>]"

text \<open>A source file with a column outside the five expected ones, the reader that serves
  it, and a parser for its two dates.\<close>

definition six_columns :: dataframe where
  "six_columns =
     [(''Date'', [Str ''2020-01-22'', Str ''2020-01-23'']),
      (''Country'', [Str ''A'', Str ''A'']),
      (''Province'', [NaN, NaN]),
      (''Confirmed'', [Num 1, Num 2]),
      (''Deaths'', [Num 0, NaN]),
      (''Recovered'', [Num 0, Num 0])]"

definition read_six :: "string \<Rightarrow> nat \<Rightarrow> nat \<Rightarrow> error + dataframe" where
  "read_six csv_route drop_first drop_last =
     (if csv_route = ''covid.csv'' then Inr six_columns else Inl OSError)"

definition day_parser :: "bool \<Rightarrow> cell \<Rightarrow> cell option" where
  "day_parser dayfirst c =
     (case c of
        Str s \<Rightarrow> map_option Stamp (map_of [(''2020-01-22'', 18283), (''2020-01-23'', 18284)] s)
      | Stamp d \<Rightarrow> Some (Stamp d)
      | _ \<Rightarrow> None)"


definition negative_active :: "row list" where
  "negative_active =
     [\<lparr>Date = 1, Country = ''A'', Confirmed = 1, Deaths = 2, Recovered = 0\<rparr>,
      \<lparr>Date = 2, Country = ''A'', Confirmed = 5, Deaths = 2, Recovered = 1\<rparr>,
      \<lparr>Date = 3, Country = ''A'', Confirmed = 3, Deaths = 4, Recovered = 3\<rparr>]"

text \<open>A source file with Spanish column names, the reader that serves it, and a parser for
  its day-first dates.\<close>

definition spanish_columns :: dataframe where
  "spanish_columns =
     [(''Fecha'', [Str ''22/01/2020'', Str ''23/01/2020'']),
      (''Pais'', [Str ''A'', Str ''A'']),
      (''Provincia'', [NaN, NaN]),
      (''Casos'', [Num 1, Num 2]),
      (''Muertes'', [Num 0, NaN]),
      (''Altas'', [Num 0, Num 0])]"

definition read_spanish :: "string \<Rightarrow> nat \<Rightarrow> nat \<Rightarrow> error + dataframe" where
  "read_spanish csv_route drop_first drop_last =
     (if csv_route = ''datos.csv'' \<and> drop_first = 0 \<and> drop_last = 0
      then Inr spanish_columns else Inl OSError)"

definition spanish_parser :: "bool \<Rightarrow> cell \<Rightarrow> cell option" where
  "spanish_parser dayfirst c =
     (case c of
        Str s \<Rightarrow>
          (if dayfirst
           then map_option Stamp (map_of [(''22/01/2020'', 18283), (''23/01/2020'', 18284)] s)
           else None)
      | Stamp d \<Rightarrow> Some (Stamp d)
      | _ \<Rightarrow> None)"

section \<open>Facts about drop\_duplicates\<close>

lemma drop_seen_subset: "set (drop_seen seen xs) \<subseteq> set xs"
proof (induction xs arbitrary: seen)
  case Nil show ?case by simp
next
  case (Cons x xs)
  obtain d v where x: "x = (d, v)" by (cases x)
  show ?case using Cons[of seen] Cons[of "v # seen"] unfolding x by auto
qed






section \<open>Running clean\_data on a store\<close>

lemma col_sub_map: "col_sub (map f ks) (map g ks) = map (\<lambda>d. int64 (f d - g d)) ks"
  by (induction ks) (simp_all add: col_sub_def)

lemma mask_zip:
  "map snd (filter (\<lambda>(c, e). t \<le> c) (zip (map f ks) (zip ks (map f ks))))
     = filter (\<lambda>(d, v). t \<le> v) (map (\<lambda>d. (d, f d)) ks)"
  by (induction ks) simp_all

lemma tail_run:
  assumes g: "objs s g = Some (Grouped (groupby_sum rs))"
  shows "bind (getitem g ''Confirmed'') (\<lambda>c.
      bind (getitem g ''Deaths'') (\<lambda>d.
      bind (getitem g ''Recovered'') (\<lambda>r.
      bind (setitem g ''Active'' (col_sub (col_sub c d) r)) (\<lambda>_.
      bind (getitem g ''Confirmed'') (\<lambda>c.
      bind (lift (py_item th 0)) (\<lambda>t0.
      bind (loc_ge g c t0 ''Confirmed'') (\<lambda>confirmed.
      bind (getitem g ''Deaths'') (\<lambda>d.
      bind (lift (py_item th 1)) (\<lambda>t1.
      bind (loc_ge g d t1 ''Deaths'') (\<lambda>deaths.
      bind (getitem g ''Active'') (\<lambda>a.
      bind (lift (py_item th 2)) (\<lambda>t2.
      bind (loc_ge g a t2 ''Active'') (\<lambda>active.
      lift (lastminute_append lastminute now
              (drop_duplicates confirmed, drop_duplicates deaths, drop_duplicates active))))))))))))))) s
    = ((if length th < 3 then Inl IndexError
        else lastminute_append lastminute now
          (threshold_dedup (th ! 0) (totals Confirmed rs),
           threshold_dedup (th ! 1) (totals Deaths rs),
           threshold_dedup (th ! 2) (active_totals rs))),
       s\<lparr>objs := (objs s)(g \<mapsto> Grouped (grouped_frame rs))\<rparr>)"
  using g
  by (simp add: bind_def getitem_def setitem_def loc_ge_def lift_def py_item_def groupby_sum_def
      Let_def col_sub_map mask_zip threshold_dedup_def totals_def active_totals_def grouped_frame_def)

lemma clean_data_run:
  assumes t: "objs s data = Some (Table rows)"
  shows "clean_data data country threshold lastminute now s =
    ((let th = (case threshold of None \<Rightarrow> [0, 0, 0] | Some t \<Rightarrow> t); rs = scope country rows in
      if length th < 3 then Inl IndexError
      else lastminute_append lastminute now
          (threshold_dedup (th ! 0) (totals Confirmed rs),
           threshold_dedup (th ! 1) (totals Deaths rs),
           threshold_dedup (th ! 2) (active_totals rs))),
     final_store s country rows)"
proof (cases "truthy country")
  case True
  define s1 where "s1 = s\<lparr>objs := (objs s)(fresh s \<mapsto> Table (scope country rows)), fresh := Suc (fresh s)\<rparr>"
  define s2 where "s2 = s1\<lparr>objs := (objs s1)(fresh s1 \<mapsto> Grouped (groupby_sum (scope country rows))), fresh := Suc (fresh s1)\<rparr>"
  have a: "select_country data (the country) s = (Inr (fresh s), s1)"
    using t True by (simp add: select_country_def alloc_def s1_def scope_def)
  have b: "groupby_Date_sum (fresh s) s1 = (Inr (fresh s1), s2)"
    by (simp add: groupby_Date_sum_def alloc_def s1_def s2_def)
  have g: "objs s2 (fresh s1) = Some (Grouped (groupby_sum (scope country rows)))"
    by (simp add: s2_def)
  have fin: "s2\<lparr>objs := (objs s2)(fresh s1 \<mapsto> Grouped (grouped_frame (scope country rows)))\<rparr> = final_store s country rows"
    using True by (simp add: s2_def s1_def final_store_def)
  show ?thesis
    unfolding clean_data_def Let_def
    apply (subst bind_def)
    apply (simp only: True if_True a prod.case sum.case)
    apply (subst bind_def)
    apply (simp only: b prod.case sum.case)
    apply (simp only: tail_run[OF g] fin)
    done
next
  case False
  define s2 where "s2 = s\<lparr>objs := (objs s)(fresh s \<mapsto> Grouped (groupby_sum (scope country rows))), fresh := Suc (fresh s)\<rparr>"
  have b: "groupby_Date_sum data s = (Inr (fresh s), s2)"
    using t False by (simp add: groupby_Date_sum_def alloc_def s2_def scope_def)
  have g: "objs s2 (fresh s) = Some (Grouped (groupby_sum (scope country rows)))"
    by (simp add: s2_def)
  have fin: "s2\<lparr>objs := (objs s2)(fresh s \<mapsto> Grouped (grouped_frame (scope country rows)))\<rparr> = final_store s country rows"
    using False by (simp add: s2_def final_store_def)
  show ?thesis
    unfolding clean_data_def Let_def
    apply (subst bind_def)
    apply (simp only: False if_False return_def prod.case sum.case)
    apply (subst bind_def)
    apply (simp only: b prod.case sum.case)
    apply (simp only: tail_run[OF g] fin)
    done
qed

lemma clean_data_no_table:
  assumes "\<forall>rows. objs s data \<noteq> Some (Table rows)"
  shows "clean_data data country threshold lastminute now s = (Inl KeyError, s)"
proof -
  have a: "select_country data c s = (Inl KeyError, s)" for c
    using assms by (simp add: select_country_def split: option.splits obj.splits)
  have b: "groupby_Date_sum data s = (Inl KeyError, s)"
    using assms by (simp add: groupby_Date_sum_def split: option.splits obj.splits)
  show ?thesis
  proof (cases "truthy country")
    case True
    show ?thesis
      unfolding clean_data_def Let_def
      apply (subst bind_def)
      apply (simp only: True if_True a prod.case sum.case)
      done
  next
    case False
    show ?thesis
      unfolding clean_data_def Let_def
      apply (subst bind_def)
      apply (simp only: False if_False return_def prod.case sum.case)
      apply (subst bind_def)
      apply (simp only: b prod.case sum.case)
      done
  qed
qed

lemma clean_data_frame:
  assumes "r < fresh s"
  shows "objs (snd (clean_data data country threshold lastminute now s)) r = objs s r"
proof (cases "\<exists>rows. objs s data = Some (Table rows)")
  case True
  then obtain rows where "objs s data = Some (Table rows)" by blast
  from clean_data_run[OF this] assms show ?thesis
    by (simp add: final_store_def)
next
  case False
  then have "\<forall>rows. objs s data \<noteq> Some (Table rows)" by blast
  from clean_data_no_table[OF this] show ?thesis by simp
qed

section \<open>Thresholding and first occurrences\<close>






section \<open>The int64 wrap-around\<close>

lemma int64_numerals:
  "int64 x = (x + 9223372036854775808) mod 18446744073709551616 - 9223372036854775808"
  by (simp add: int64_def)



lemma in_int64_int64: "in_int64 (int64 x)"
  by (simp add: int64_def in_int64_def)







section \<open>Evaluating runs\<close>

lemma lastminute_append_None: "lastminute_append None now r = Inr r"
  by (simp add: lastminute_append_def truthy_def split: prod.splits)


lemma clean_data_default:
  assumes "objs s data = Some (Table rows)"
  shows "clean_data data country None lastminute now s =
    (lastminute_append lastminute now
       (threshold_dedup 0 (totals Confirmed (scope country rows)),
        threshold_dedup 0 (totals Deaths (scope country rows)),
        threshold_dedup 0 (active_totals (scope country rows))),
     final_store s country rows)"
  unfolding clean_data_run[OF assms] by (simp add: Let_def)

lemma store_of_table: "objs (store_of rows) 0 = Some (Table rows)"
  by (simp add: store_of_def)

lemmas run_simps = scope_def truthy_def lastminute_append_def threshold_dedup_def totals_def
  active_totals_def group_keys_def group_sum_def drop_duplicates_def py_item_def series_set_def
  Let_def int64_numerals





lemma negative_run:
  "fst (clean_data 0 None None None now (store_of negative_active))
     = Inr ([(1, 1), (2, 5), (3, 3)], [(1, 2), (3, 4)], [(2, 2)])"
  unfolding clean_data_run[OF store_of_table]
  by (simp add: run_simps negative_active_def split: prod.splits)








lemma series_set_new: "label \<notin> fst ` set xs \<Longrightarrow> series_set xs label v = xs @ [(label, v)]"
  by (simp add: series_set_def)

lemma lastminute_append_three:
  "lastminute_append (Some [c, d, r]) (now1, now2, now3) (confirmed, deaths, active) =
     Inr (series_set confirmed now1 c, series_set deaths now2 d, series_set active now3 (c - d - r))"
  by (simp add: lastminute_append_def truthy_def py_item_def)

lemma threshold_dedup_ge: "\<forall>(d, v) \<in> set (threshold_dedup t full). t \<le> v"
proof -
  have "set (threshold_dedup t full) \<subseteq> set (filter (\<lambda>(d, v). t \<le> v) full)"
    unfolding threshold_dedup_def drop_duplicates_def by (rule drop_seen_subset)
  then show ?thesis by auto
qed

lemma threshold_dedup_all:
  assumes "\<forall>(d, v) \<in> set full. t \<le> v"
  shows "threshold_dedup t full = drop_duplicates full"
proof -
  from assms have "filter (\<lambda>(d, v). t \<le> v) full = full"
    by (auto simp: filter_id_conv)
  then show ?thesis by (simp add: threshold_dedup_def)
qed

section \<open>Column labels through get\_data\<close>

lemma rename_labels: "map fst (rename mapper df) = map (rename_label mapper) (map fst df)"
  by (simp add: rename_def comp_def case_prod_beta)

lemma fillna_labels: "map fst (fillna v df) = map fst df"
  by (simp add: fillna_def comp_def case_prod_beta)

lemma assign_labels:
  "map fst (map (\<lambda>(name, c). if name = n then (name, col) else (name, c)) df) = map fst df"
  by (induction df) auto

lemma rename_label_five:
  "rename_label [(date_label, ''Date''), (country_label, ''Country''),
                 (confirmed_label, ''Confirmed''), (deaths_label, ''Deaths''),
                 (recovered_label, ''Recovered'')] name =
     (if name = recovered_label then ''Recovered''
      else if name = deaths_label then ''Deaths''
      else if name = confirmed_label then ''Confirmed''
      else if name = country_label then ''Country''
      else if name = date_label then ''Date''
      else name)"
  by (simp add: rename_label_def)

section \<open>The claims\<close>









text \<open>
  C5 (amended). For a manual point \<open>(c, d, r)\<close>, when the clock readings are not already
  dates of the respective filtered series, \<open>clean_data\<close> returns the three filtered
  series of the call without the point, each with one entry added at the end: \<open>c\<close>,
  \<open>d\<close> and \<open>c - d - r\<close>, labelled with the clock readings and subject to no threshold
  or duplicate check.
\<close>

theorem clean_data_lastminute:
  assumes base: "fst (clean_data data country threshold None (now1, now2, now3) s)
                   = Inr (confirmed, deaths, active)"
    and fresh1: "now1 \<notin> fst ` set confirmed"
    and fresh2: "now2 \<notin> fst ` set deaths"
    and fresh3: "now3 \<notin> fst ` set active"
  shows "fst (clean_data data country threshold (Some [c, d, r]) (now1, now2, now3) s)
           = Inr (confirmed @ [(now1, c)], deaths @ [(now2, d)], active @ [(now3, c - d - r)])"
proof (cases "\<exists>rows. objs s data = Some (Table rows)")
  case False
  then have "\<forall>rows. objs s data \<noteq> Some (Table rows)" by blast
  from clean_data_no_table[OF this] base show ?thesis by simp
next
  case True
  then obtain rows where t: "objs s data = Some (Table rows)" by blast
  define th where "th = (case threshold of None \<Rightarrow> [0, 0, 0] | Some t \<Rightarrow> t)"
  define rs where "rs = scope country rows"
  have run: "fst (clean_data data country threshold lm (now1, now2, now3) s) =
      (if length th < 3 then Inl IndexError
       else lastminute_append lm (now1, now2, now3)
          (threshold_dedup (th ! 0) (totals Confirmed rs),
           threshold_dedup (th ! 1) (totals Deaths rs),
           threshold_dedup (th ! 2) (active_totals rs)))" for lm
    unfolding clean_data_run[OF t] by (simp add: Let_def th_def rs_def)
  from base have len: "\<not> length th < 3"
    unfolding run by (auto split: if_splits)
  from base len have eq: "(threshold_dedup (th ! 0) (totals Confirmed rs),
           threshold_dedup (th ! 1) (totals Deaths rs),
           threshold_dedup (th ! 2) (active_totals rs)) = (confirmed, deaths, active)"
    unfolding run by (simp add: lastminute_append_None)
  have "fst (clean_data data country threshold (Some [c, d, r]) (now1, now2, now3) s) =
      lastminute_append (Some [c, d, r]) (now1, now2, now3) (confirmed, deaths, active)"
    unfolding run using len by (simp only: eq if_False)
  then show ?thesis
    by (simp only: lastminute_append_three series_set_new[OF fresh1] series_set_new[OF fresh2]
        series_set_new[OF fresh3])
qed

theorem clean_data_lastminute_witness:
  "fst (clean_data 0 None None None (7, 8, 9) (store_of dated_rows))
     = Inr ([(5, 1), (6, 2)], [(5, 0), (6, 1)], [(5, 1)])
   \<and> (7 :: int) \<notin> fst ` set [(5, 1 :: int), (6, 2)]
   \<and> (8 :: int) \<notin> fst ` set [(5, 0 :: int), (6, 1)]
   \<and> (9 :: int) \<notin> fst ` set [(5, 1 :: int)]
   \<and> fst (clean_data 0 None None (Some [100, 7, 3]) (7, 8, 9) (store_of dated_rows))
     = Inr ([(5, 1), (6, 2), (7, 100)], [(5, 0), (6, 1), (8, 7)], [(5, 1), (9, 90)])"
proof -
  have b: "fst (clean_data 0 None None None (7, 8, 9) (store_of dated_rows))
     = Inr ([(5, 1), (6, 2)], [(5, 0), (6, 1)], [(5, 1)])"
    unfolding clean_data_run[OF store_of_table]
    by (simp add: run_simps dated_rows_def split: prod.splits)
  have f1: "(7 :: int) \<notin> fst ` set [(5, 1 :: int), (6, 2)]" by simp
  have f2: "(8 :: int) \<notin> fst ` set [(5, 0 :: int), (6, 1)]" by simp
  have f3: "(9 :: int) \<notin> fst ` set [(5, 1 :: int)]" by simp
  from clean_data_lastminute[OF b f1 f2 f3, of 100 7 3] b f1 f2 f3 show ?thesis by simp
qed

text \<open>
  C5 as stated fails when the clock reading is a date of the series: the assignment by label
  overwrites the entry of that date and nothing is added at the end.
\<close>

theorem clean_data_lastminute_counterexample:
  "fst (clean_data 0 None None None (5, 5, 5) (store_of dated_rows))
     = Inr ([(5, 1), (6, 2)], [(5, 0), (6, 1)], [(5, 1)])
   \<and> fst (clean_data 0 None None (Some [100, 7, 3]) (5, 5, 5) (store_of dated_rows))
     = Inr ([(5, 100), (6, 2)], [(5, 7), (6, 1)], [(5, 90)])
   \<and> fst (clean_data 0 None None (Some [100, 7, 3]) (5, 5, 5) (store_of dated_rows))
     \<noteq> Inr ([(5, 1), (6, 2)] @ [(5, 100)], [(5, 0), (6, 1)] @ [(5, 7)], [(5, 1)] @ [(5, 90)])"
proof -
  have a: "fst (clean_data 0 None None None (5, 5, 5) (store_of dated_rows))
     = Inr ([(5, 1), (6, 2)], [(5, 0), (6, 1)], [(5, 1)])"
    unfolding clean_data_run[OF store_of_table]
    by (simp add: run_simps dated_rows_def split: prod.splits)
  have b: "fst (clean_data 0 None None (Some [100, 7, 3]) (5, 5, 5) (store_of dated_rows))
     = Inr ([(5, 100), (6, 2)], [(5, 7), (6, 1)], [(5, 90)])"
    unfolding clean_data_run[OF store_of_table]
    by (simp add: run_simps dated_rows_def split: prod.splits)
  show ?thesis unfolding a b by simp
qed

text \<open>
  C6 (amended). The table returned by \<open>get_data\<close> has as many columns as the source, in
  the source's order. A source column whose name the mapping gives for Date, Country,
  Confirmed, Deaths or Recovered carries that name (the last of the five when the mapping
  gives one source name for several); every other source column keeps its own name.
\<close>

theorem get_data_columns:
  assumes src: "read_csv csv_route drop_first drop_last = Inr src"
    and ret: "get_data read_csv to_datetime csv_route date_label country_label confirmed_label
                deaths_label recovered_label drop_first drop_last dayfirst = Inr df"
  shows "length df = length src
       \<and> (\<forall>i < length src.
            fst (df ! i) =
              (if fst (src ! i) = recovered_label then ''Recovered''
               else if fst (src ! i) = deaths_label then ''Deaths''
               else if fst (src ! i) = confirmed_label then ''Confirmed''
               else if fst (src ! i) = country_label then ''Country''
               else if fst (src ! i) = date_label then ''Date''
               else fst (src ! i)))"
proof -
  let ?m = "[(date_label, ''Date''), (country_label, ''Country''),
             (confirmed_label, ''Confirmed''), (deaths_label, ''Deaths''),
             (recovered_label, ''Recovered'')]"
  let ?df = "rename ?m (fillna (Num 0) src)"
  from ret src obtain col' where "df = map (\<lambda>(name, c). if name = ''Date'' then (name, col') else (name, c)) ?df"
    by (auto simp: get_data_def Let_def split: list.splits sum.splits prod.splits)
  then have "map fst df = map fst ?df" by (simp only: assign_labels)
  then have l: "map fst df = map (rename_label ?m) (map fst src)"
    by (simp only: rename_labels fillna_labels)
  from l have "length (map fst df) = length (map (rename_label ?m) (map fst src))" by simp
  then have len: "length df = length src" by simp
  have "fst (df ! i) = rename_label ?m (fst (src ! i))" if "i < length src" for i
  proof -
    from that len have "fst (df ! i) = map fst df ! i" by simp
    also have "\<dots> = map (rename_label ?m) (map fst src) ! i" by (simp only: l)
    also have "\<dots> = rename_label ?m (fst (src ! i))" using that by simp
    finally show ?thesis .
  qed
  with len show ?thesis by (simp only: rename_label_five) blast
qed

theorem get_data_columns_witness:
  "read_spanish ''datos.csv'' 0 0 = Inr spanish_columns
   \<and> get_data read_spanish spanish_parser ''datos.csv'' ''Fecha'' ''Pais'' ''Casos'' ''Muertes''
        ''Altas'' 0 0 True
      = Inr [(''Date'', [Stamp 18283, Stamp 18284]),
             (''Country'', [Str ''A'', Str ''A'']),
             (''Provincia'', [Num 0, Num 0]),
             (''Confirmed'', [Num 1, Num 2]),
             (''Deaths'', [Num 0, Num 0]),
             (''Recovered'', [Num 0, Num 0])]
   \<and> length [(''Date'', [Stamp 18283, Stamp 18284]),
             (''Country'', [Str ''A'', Str ''A'']),
             (''Provincia'', [Num 0, Num 0]),
             (''Confirmed'', [Num 1, Num 2]),
             (''Deaths'', [Num 0, Num 0]),
             (''Recovered'', [Num 0, Num 0])] = length spanish_columns"
proof -
  have a: "read_spanish ''datos.csv'' 0 0 = Inr spanish_columns" by (simp add: read_spanish_def)
  have b: "get_data read_spanish spanish_parser ''datos.csv'' ''Fecha'' ''Pais'' ''Casos'' ''Muertes''
        ''Altas'' 0 0 True
      = Inr [(''Date'', [Stamp 18283, Stamp 18284]),
             (''Country'', [Str ''A'', Str ''A'']),
             (''Provincia'', [Num 0, Num 0]),
             (''Confirmed'', [Num 1, Num 2]),
             (''Deaths'', [Num 0, Num 0]),
             (''Recovered'', [Num 0, Num 0])]"
    by (simp add: get_data_def read_spanish_def spanish_columns_def fillna_def rename_def
        rename_label_def convert_column_def spanish_parser_def Let_def)
  from get_data_columns[OF a b] have "length [(''Date'', [Stamp 18283, Stamp 18284]),
             (''Country'', [Str ''A'', Str ''A'']),
             (''Provincia'', [Num 0, Num 0]),
             (''Confirmed'', [Num 1, Num 2]),
             (''Deaths'', [Num 0, Num 0]),
             (''Recovered'', [Num 0, Num 0])] = length spanish_columns"
    by (rule conjunct1)
  with a b show ?thesis by blast
qed

text \<open>
  C6 as stated fails on a source with a sixth column: the returned table has six columns.
\<close>

theorem get_data_columns_counterexample:
  "get_data read_six day_parser ''covid.csv'' ''Date'' ''Country'' ''Confirmed'' ''Deaths''
        ''Recovered'' 0 0 False
      = Inr [(''Date'', [Stamp 18283, Stamp 18284]),
             (''Country'', [Str ''A'', Str ''A'']),
             (''Province'', [Num 0, Num 0]),
             (''Confirmed'', [Num 1, Num 2]),
             (''Deaths'', [Num 0, Num 0]),
             (''Recovered'', [Num 0, Num 0])]
   \<and> length [(''Date'', [Stamp 18283, Stamp 18284]),
             (''Country'', [Str ''A'', Str ''A'']),
             (''Province'', [Num 0, Num 0 :: cell]),
             (''Confirmed'', [Num 1, Num 2]),
             (''Deaths'', [Num 0, Num 0]),
             (''Recovered'', [Num 0, Num 0])] \<noteq> 5"
  by (simp add: get_data_def read_six_def six_columns_def fillna_def rename_def rename_label_def
        convert_column_def day_parser_def Let_def)

text \<open>
  C8 (amended). With the thresholds omitted, \<open>clean_data\<close> is the same program as with
  the thresholds \<open>[0, 0, 0]\<close>: each returned series is the per-date series of its metric
  restricted to the values of at least 0 and then de-duplicated. So values below 0, which
  the Active count can take, are dropped, and a series without negative values is only
  de-duplicated.
\<close>

theorem clean_data_default_threshold:
  assumes "objs s data = Some (Table rows)"
  shows "clean_data data country None lastminute now
           = clean_data data country (Some [0, 0, 0]) lastminute now
       \<and> fst (clean_data data country None None now s) =
            Inr (threshold_dedup 0 (totals Confirmed (scope country rows)),
                 threshold_dedup 0 (totals Deaths (scope country rows)),
                 threshold_dedup 0 (active_totals (scope country rows)))
       \<and> (\<forall>(d, v) \<in> set (threshold_dedup 0 full). 0 \<le> v)
       \<and> ((\<forall>(d, v) \<in> set full. 0 \<le> v) \<longrightarrow> threshold_dedup 0 full = drop_duplicates full)
       \<and> fst (clean_data 0 None None None now (store_of negative_active))
            = Inr ([(1, 1), (2, 5), (3, 3)], [(1, 2), (3, 4)], [(2, 2)])"
proof -
  have p: "clean_data data country None lastminute now
           = clean_data data country (Some [0, 0, 0]) lastminute now"
    by (simp add: clean_data_def)
  have q: "fst (clean_data data country None None now s) =
            Inr (threshold_dedup 0 (totals Confirmed (scope country rows)),
                 threshold_dedup 0 (totals Deaths (scope country rows)),
                 threshold_dedup 0 (active_totals (scope country rows)))"
    unfolding clean_data_default[OF assms] lastminute_append_None by simp
  have r: "(\<forall>(d, v) \<in> set full. 0 \<le> v) \<longrightarrow> threshold_dedup 0 full = drop_duplicates full"
    using threshold_dedup_all[of full 0] by blast
  from p q r threshold_dedup_ge[of 0 full] negative_run[of now] show ?thesis by blast
qed

theorem clean_data_default_threshold_witness:
  "objs (store_of negative_active) 0 = Some (Table negative_active)
   \<and> fst (clean_data 0 None None None (0, 0, 0) (store_of negative_active))
       = Inr ([(1, 1), (2, 5), (3, 3)], [(1, 2), (3, 4)], [(2, 2)])
   \<and> fst (clean_data 0 None (Some [0, 0, 0]) None (0, 0, 0) (store_of negative_active))
       = Inr ([(1, 1), (2, 5), (3, 3)], [(1, 2), (3, 4)], [(2, 2)])"
proof -
  note inst = clean_data_default_threshold[where s = "store_of negative_active" and data = 0
      and rows = negative_active and country = None and lastminute = None and now = "(0, 0, 0)"
      and full = "[]", OF store_of_table]
  from inst have p: "clean_data 0 None None None (0, 0, 0)
           = clean_data 0 None (Some [0, 0, 0]) None (0, 0, 0)"
    by (rule conjunct1)
  from inst have e: "fst (clean_data 0 None None None (0, 0, 0) (store_of negative_active))
            = Inr ([(1, 1), (2, 5), (3, 3)], [(1, 2), (3, 4)], [(2, 2)])"
    by (elim conjE)
  from e have e': "fst (clean_data 0 None (Some [0, 0, 0]) None (0, 0, 0) (store_of negative_active))
            = Inr ([(1, 1), (2, 5), (3, 3)], [(1, 2), (3, 4)], [(2, 2)])"
    unfolding p .
  from store_of_table e e' show ?thesis by blast
qed

text \<open>
  C8 as stated fails where it says that no thresholding is applied by default: with Active
  counts -1, 2, -4 the default call returns the Active series with the single entry 2.
\<close>

theorem clean_data_default_threshold_counterexample:
  "fst (clean_data 0 None None None (0, 0, 0) (store_of negative_active))
     = Inr ([(1, 1), (2, 5), (3, 3)], [(1, 2), (3, 4)], [(2, 2)])
   \<and> active_totals negative_active = [(1, - 1), (2, 2), (3, - 4)]
   \<and> drop_duplicates (active_totals negative_active) \<noteq> [(2, 2)]"
proof -
  have a: "active_totals negative_active = [(1, - 1), (2, 2), (3, - 4)]"
    by (simp add: run_simps negative_active_def)
  have b: "drop_duplicates [(1, - 1), (2, 2), (3, - 4)] \<noteq> [(2, 2)]"
    by (simp add: drop_duplicates_def)
  from negative_run[of "(0, 0, 0)"] a b show ?thesis by simp
qed

text \<open>
  C9. \<open>clean_data\<close> leaves every object that exists before the call unchanged, the
  caller's table among them: the selected rows, the aggregated table and its Active column
  live in objects created by the call. This holds for every outcome, errors included.
\<close>

theorem clean_data_leaves_table:
  assumes "r < fresh s"
  shows "objs (snd (clean_data data country threshold lastminute now s)) r = objs s r"
  using assms by (rule clean_data_frame)

theorem clean_data_leaves_table_witness:
  "(0::nat) < fresh (store_of two_regions)
   \<and> objs (snd (clean_data 0 (Some ''A'') (Some [0, 2, 10]) (Some [100, 7, 3]) (7, 8, 9)
                 (store_of two_regions))) 0 = Some (Table two_regions)"
proof -
  have h: "(0::nat) < fresh (store_of two_regions)" by (simp add: store_of_def)
  from clean_data_leaves_table[OF h] h store_of_table show ?thesis by simp
qed



end
